theory Spec2Isabelle
  imports Main "HOL-Library.Sublist"
begin

section \<open>Data model of \<^verbatim>\<open>util/main.go\<close>\<close>

text \<open>
  The three structs of the exporter. Go strings are byte strings and become \<open>string\<close>;
  \<open>ScriptReturnCode\<close> (Go \<open>int\<close>), \<open>ResultPatternMatch\<close> (Go \<open>int8\<close>) and
  \<open>ParsedTimeout\<close> (a \<open>time.Duration\<close>, nanoseconds) are only stored and printed, never
  computed with, so they are integers here.
\<close>

record CredentialConfig =
  Host :: string
  Port :: string
  User :: string
  KeyFile :: string
  ScriptResult :: string
  ScriptReturnCode :: int
  ScriptError :: string
  ResultPatternMatch :: int

record ScriptConfig =
  Name :: string
  Script :: string
  Timeout :: string
  Pattern :: string
  Credentials :: "CredentialConfig list"
  ParsedTimeout :: int
  Ignored :: bool

record Config =
  Version :: string
  Scripts :: "ScriptConfig list"

section \<open>The libraries the code calls\<close>

text \<open>
  The exporter reaches the outside world through a handful of library calls. Each is a
  field of the environment: a Go result \<open>(v, err)\<close> is a sum with the error text on the
  left. A compiled \<open>*regexp.Regexp\<close> is represented by its \<open>MatchString\<close> method; a nil
  pointer is \<open>None\<close>.

  \<open>ssh.Dial\<close> has a third outcome. \<open>getKeyFile\<close> discards the errors of reading and
  parsing the key file and returns a nil \<open>ssh.Signer\<close> when either fails; the transport
  calls a method of that nil signer once a host answers and offers public-key
  authentication, which is a nil pointer dereference. So \<open>ssh_Dial\<close> may panic, may fail
  with an error, or may return a client.
\<close>

datatype panic = NilPointerDereference

datatype Signer = Signer string
datatype Client = Client nat
datatype Session = Session nat

type_synonym Regexp = "string \<Rightarrow> bool"

record env =
  ioutil_ReadFile :: "string \<Rightarrow> string + string"
  ssh_ParsePrivateKey :: "string \<Rightarrow> string + Signer"
  ssh_Dial :: "string \<Rightarrow> string \<Rightarrow> Signer option \<Rightarrow> panic + (string + Client)"
  client_NewSession :: "Client \<Rightarrow> string + Session"
  session_CombinedOutput :: "Session \<Rightarrow> string \<Rightarrow> string \<times> string option"
  fmt_Sscanf :: "string \<Rightarrow> string \<Rightarrow> int option"
  regexp_Compile :: "string \<Rightarrow> string + Regexp"
  time_ParseDuration :: "string \<Rightarrow> string + int"

text \<open>
  \<open>fmt_Sscanf e input format\<close> is the integer \<open>fmt.Sscanf\<close> stores through its single
  pointer argument, \<open>None\<close> when it stores nothing.
\<close>

section \<open>Configuration normalisation\<close>

definition adjustCredential :: "CredentialConfig \<Rightarrow> CredentialConfig" where
  "adjustCredential v_j = (if Port v_j = [] then v_j\<lparr>Port := ''22''\<rparr> else v_j)"

definition adjustScript :: "env \<Rightarrow> ScriptConfig \<Rightarrow> ScriptConfig" where
  "adjustScript e v_i =
     (let s = v_i\<lparr>Credentials := map adjustCredential (Credentials v_i)\<rparr>
      in case time_ParseDuration e (Timeout s) of
           Inr tmp \<Rightarrow> s\<lparr>ParsedTimeout := tmp\<rparr>
         | Inl err \<Rightarrow>
             s\<lparr>ParsedTimeout :=
                 (case time_ParseDuration e ''10s'' of Inr d \<Rightarrow> d | Inl _ \<Rightarrow> 0)\<rparr>)"

definition adjustConfig :: "env \<Rightarrow> Config \<Rightarrow> Config \<times> string option" where
  "adjustConfig e c = (c\<lparr>Scripts := map (adjustScript e) (Scripts c)\<rparr>, None)"

section \<open>The per-host executor\<close>

definition newline :: char where
  "newline = CHR 0x0A"

definition backslash :: char where
  "backslash = CHR 0x5C"

text \<open>\<open>strings.Replace(input, "\n", "\\n", -1)\<close>: every newline byte becomes the two
  bytes backslash and \<open>n\<close>.\<close>

fun literalFormat :: "string \<Rightarrow> string" where
  "literalFormat [] = []"
| "literalFormat (ch # rest) =
     (if ch = newline then backslash # CHR ''n'' # literalFormat rest
      else ch # literalFormat rest)"

definition getKeyFile :: "env \<Rightarrow> string \<Rightarrow> Signer option \<times> string option" where
  "getKeyFile e keyfile =
     (let buf = (case ioutil_ReadFile e keyfile of Inr b \<Rightarrow> b | Inl err \<Rightarrow> []);
          key = (case ssh_ParsePrivateKey e buf of Inr k \<Rightarrow> Some k | Inl err \<Rightarrow> None)
      in (key, None))"

text \<open>
  \<open>sshConnectToHost\<close> and \<open>executeScriptOnHost\<close> return \<open>Inl\<close> of the panic when the
  transport panics, and \<open>Inr\<close> of what the Go function returns otherwise.
\<close>

definition sshConnectToHost ::
  "env \<Rightarrow> string \<Rightarrow> string \<Rightarrow> string \<Rightarrow> string \<Rightarrow> panic + (string + (Client \<times> Session))" where
  "sshConnectToHost e host port user keyfile =
     (let key = fst (getKeyFile e keyfile);
          fullHost = host @ '':'' @ port
      in case ssh_Dial e fullHost user key of
           Inl pn \<Rightarrow> Inl pn
         | Inr (Inl err) \<Rightarrow> Inr (Inl err)
         | Inr (Inr client) \<Rightarrow>
             (case client_NewSession e client of
                Inl err \<Rightarrow> Inr (Inl err)
              | Inr session \<Rightarrow> Inr (Inr (client, session))))"

definition executeScriptOnHost ::
  "env \<Rightarrow> string \<Rightarrow> string \<Rightarrow> string \<Rightarrow> string \<Rightarrow> string \<Rightarrow>
     panic + (string \<times> int \<times> string option)" where
  "executeScriptOnHost e host port user keyfile script =
     (case sshConnectToHost e host port user keyfile of
        Inl pn \<Rightarrow> Inl pn
      | Inr (Inl err) \<Rightarrow> Inr ([], - 1, Some err)
      | Inr (Inr (client, session)) \<Rightarrow>
          Inr (case session_CombinedOutput e session script of
                 (out, Some err) \<Rightarrow>
                   (let errorStatusCode =
                          (case fmt_Sscanf e err ''Process exited with status %d'' of
                             Some n \<Rightarrow> n | None \<Rightarrow> 0)
                    in if errorStatusCode \<noteq> 0 then ([], errorStatusCode, Some err)
                       else ([], - 1, Some err))
               | (out, None) \<Rightarrow> (literalFormat out, 0, None)))"

text \<open>
  The body of the goroutine that \<open>executeScript\<close> starts for a host, after the call of
  \<open>executeScriptOnHost\<close>: it stores the three results into the slot \<open>(*creds)[i]\<close> and
  then tests the pattern. \<open>match\<close> is nil when the pattern did not compile (the error of
  \<open>regexp.Compile\<close> is discarded), and \<open>match.MatchString\<close> on a nil pointer panics.
\<close>

definition storeResult :: "string \<times> int \<times> string option \<Rightarrow> CredentialConfig \<Rightarrow> CredentialConfig" where
  "storeResult r slot =
     (case r of (result, status, err) \<Rightarrow>
        (let s1 = slot\<lparr>ScriptReturnCode := status, ScriptResult := result\<rparr>
         in case err of Some x \<Rightarrow> s1\<lparr>ScriptError := x\<rparr> | None \<Rightarrow> s1))"

definition storeMatch :: "Regexp option \<Rightarrow> string \<Rightarrow> CredentialConfig \<Rightarrow> panic + CredentialConfig" where
  "storeMatch match result slot =
     (case match of
        None \<Rightarrow> Inl NilPointerDereference
      | Some re \<Rightarrow>
          Inr (if re result then slot\<lparr>ResultPatternMatch := 1\<rparr>
               else slot\<lparr>ResultPatternMatch := 0\<rparr>))"

definition compilePattern :: "env \<Rightarrow> string \<Rightarrow> Regexp option" where
  "compilePattern e pattern =
     (case regexp_Compile e pattern of Inr re \<Rightarrow> Some re | Inl err \<Rightarrow> None)"

definition hostTask ::
  "env \<Rightarrow> Regexp option \<Rightarrow> string \<Rightarrow> CredentialConfig \<Rightarrow> CredentialConfig \<Rightarrow> panic + CredentialConfig" where
  "hostTask e match script c slot =
     (case executeScriptOnHost e (Host c) (Port c) (User c) (KeyFile c) script of
        Inl pn \<Rightarrow> Inl pn
      | Inr r \<Rightarrow> storeMatch match (fst r) (storeResult r slot))"

section \<open>The exposition formatter\<close>

text \<open>The verb \<open>%d\<close> of \<open>fmt.Sprintf\<close>: a decimal numeral, with a minus sign when negative.\<close>

definition digitChar :: "nat \<Rightarrow> char" where
  "digitChar d = ''0123456789'' ! d"

fun decimal :: "nat \<Rightarrow> string" where
  "decimal n = (if n < 10 then [digitChar n] else decimal (n div 10) @ [digitChar (n mod 10)])"

declare decimal.simps [simp del]

definition fmt_d :: "int \<Rightarrow> string" where
  "fmt_d i = (if i < 0 then CHR ''-'' # decimal (nat (- i)) else decimal (nat i))"

definition exitStatusHelpStr :: "string \<Rightarrow> string" where
  \<open>exitStatusHelpStr name =
     ''# HELP ssh_exporter_'' @ name @
     ''_exit_status Integer exit status of commands and metadata about the command's execution.'' @
     [newline] @ ''# TYPE ssh_exporter gauge''\<close>

definition patternMatchHelpStr :: "string \<Rightarrow> string" where
  \<open>patternMatchHelpStr name =
     ''# HELP ssh_exporter_'' @ name @
     ''_pattern_match Boolean match of regex on output of script of commands and metadata about the command's execution.'' @
     [newline] @ ''# TYPE ssh_exporter gauge''\<close>

definition exitStatusFormatStr ::
  "string \<Rightarrow> string \<Rightarrow> string \<Rightarrow> string \<Rightarrow> string \<Rightarrow> int \<Rightarrow> int \<Rightarrow> string" where
  \<open>exitStatusFormatStr a1 a2 a3 a4 a5 a6 a7 =
     ''ssh_exporter_'' @ a1 @ ''_exit_status{name="'' @ a2 @ ''",host="'' @ a3 @
     ''",user="'' @ a4 @ ''",script="'' @ a5 @ ''",exit_status="'' @ fmt_d a6 @
     ''"} '' @ fmt_d a7\<close>

definition patternMatchFormatStr ::
  "string \<Rightarrow> string \<Rightarrow> string \<Rightarrow> string \<Rightarrow> string \<Rightarrow> string \<Rightarrow> int \<Rightarrow> string" where
  \<open>patternMatchFormatStr a1 a2 a3 a4 a5 a6 a7 =
     ''ssh_exporter_'' @ a1 @ ''_pattern_match{name="'' @ a2 @ ''",host="'' @ a3 @
     ''",user="'' @ a4 @ ''",script="'' @ a5 @ ''",regex="'' @ a6 @
     ''"} '' @ fmt_d a7\<close>

definition exitStatusLine :: "ScriptConfig \<Rightarrow> CredentialConfig \<Rightarrow> string" where
  "exitStatusLine i j =
     exitStatusFormatStr (Name i) (Name i) (Host j) (User j) (Script i)
       (ScriptReturnCode j) (ScriptReturnCode j)"

definition patternMatchLine :: "ScriptConfig \<Rightarrow> CredentialConfig \<Rightarrow> string" where
  "patternMatchLine i j =
     patternMatchFormatStr (Name i) (Name i) (Host j) (User j) (Script i) (Pattern i)
       (ResultPatternMatch j)"

text \<open>The two inner loops: \<open>response = fmt.Sprintf("%s\n%s", response, line)\<close> per host.\<close>

fun appendLines :: "(CredentialConfig \<Rightarrow> string) \<Rightarrow> string \<Rightarrow> CredentialConfig list \<Rightarrow> string" where
  "appendLines f response [] = response"
| "appendLines f response (j # js) = appendLines f (response @ [newline] @ f j) js"

definition formatScript :: "string \<Rightarrow> ScriptConfig \<Rightarrow> string" where
  "formatScript response i =
     (if Ignored i \<noteq> True then
        (let exitedDoc = exitStatusHelpStr (Name i);
             matchedDoc = patternMatchHelpStr (Name i);
             r1 = response @ exitedDoc;
             r2 = appendLines (exitStatusLine i) r1 (Credentials i);
             r3 = r2 @ [newline] @ matchedDoc;
             r4 = appendLines (patternMatchLine i) r3 (Credentials i)
         in r4 @ [newline])
      else response)"

fun formatScripts :: "string \<Rightarrow> ScriptConfig list \<Rightarrow> string" where
  "formatScripts response [] = response"
| "formatScripts response (i # is) = formatScripts (formatScript response i) is"

definition PrometheusFormatResponse :: "Config \<Rightarrow> string \<times> string option" where
  "PrometheusFormatResponse c = (formatScripts [] (Scripts c), None)"

text \<open>
  The layout of one script's block, line by line: the exit-status header, one
  exit-status line per host, the pattern-match header, one pattern-match line per host.
  Every line is terminated by a newline.
\<close>

definition scriptLines :: "ScriptConfig \<Rightarrow> string list" where
  "scriptLines i =
     [exitStatusHelpStr (Name i)] @ map (exitStatusLine i) (Credentials i) @
     [patternMatchHelpStr (Name i)] @ map (patternMatchLine i) (Credentials i)"

definition terminated :: "string list \<Rightarrow> string" where
  "terminated ls = concat (map (\<lambda>l. l @ [newline]) ls)"

definition scriptBlock :: "ScriptConfig \<Rightarrow> string" where
  "scriptBlock i = terminated (scriptLines i)"

text \<open>
  The layout as the specification words it: the same lines, followed by a blank line
  that terminates the block.
\<close>

definition specScriptBlock :: "ScriptConfig \<Rightarrow> string" where
  "specScriptBlock i = terminated (scriptLines i @ [[]])"

definition specDocument :: "Config \<Rightarrow> string" where
  "specDocument c = concat (map specScriptBlock (filter (\<lambda>i. \<not> Ignored i) (Scripts c)))"

section \<open>The batch dispatcher\<close>

text \<open>
  \<open>BatchExecute\<close> starts one goroutine per selected script (\<open>go executeScript(...)\<close>), and
  each of those starts one goroutine per host. The goroutines share the configuration,
  the \<open>sync.WaitGroup\<close> \<open>done\<close> and the unbuffered channel \<open>t\<close>, so the dispatcher is a
  transition system: a state holds the shared memory and the position of every goroutine,
  and an action lets one goroutine execute its next statement.

  The dispatcher is at \<open>MLoop1 i\<close> before iteration \<open>i\<close> of its first loop, at \<open>MWait\<close>
  in \<open>done.Wait()\<close>, at \<open>MLoop2 k j\<close> before the \<open>j\<close>-th \<open>select\<close> of script \<open>k\<close> in its
  second loop, and at \<open>MReturned err\<close> once it has returned \<open>(*c, err)\<close>.
\<close>

datatype mpc = MLoop1 nat | MWait | MLoop2 nat nat | MReturned "string option"

text \<open>
  A call of \<open>executeScript\<close>: its arguments, the compiled pattern, and the loop variables
  \<open>i\<close> and \<open>c\<close>. The closures it starts refer to these two variables, which are one pair
  per loop and not per iteration (the repository has no \<open>go.mod\<close>, so the rule of Go
  before 1.22 applies). It is at \<open>SCompile\<close> before \<open>regexp.Compile\<close>, at \<open>SRange j\<close>
  before iteration \<open>j\<close> of its loop, and at \<open>SReturned\<close> after it.
\<close>

datatype spc = SCompile | SRange nat | SReturned

record spawner =
  sp_script :: string
  sp_pattern :: string
  sp_pc :: spc
  sp_match :: "Regexp option"
  sp_i :: nat
  sp_c :: CredentialConfig

text \<open>
  The goroutine of one host: started and not yet back from its call of
  \<open>executeScriptOnHost\<close> (the call, with its exchange with the host, is one step, taken
  when it returns), holding its three results before storing them, blocked in
  \<open>t <- true\<close>, before \<open>done.Done()\<close>, and finished.
\<close>

datatype tpc = TCall | TStore "string \<times> int \<times> string option" | TSend | TDone | TExit

text \<open>
  Besides the shared memory, a state keeps two histories: the calls of
  \<open>executeScriptOnHost\<close> made so far (script index, host, port, user, key file, command),
  each entered when the call ends, and the outcome of every \<open>select\<close> the dispatcher has
  passed (the task whose signal it received, or \<open>None\<close> for the timer).
\<close>

record state =
  cfg :: Config
  main :: mpc
  done_counter :: int
  spawners :: "nat \<Rightarrow> spawner option"
  tasks :: "nat \<times> nat \<Rightarrow> tpc option"
  crashed :: bool
  contacted :: "(nat \<times> string \<times> string \<times> string \<times> string \<times> string) list"
  signals :: "(nat \<times> nat) option list"

definition zeroCredential :: CredentialConfig where
  "zeroCredential =
     \<lparr>Host = [], Port = [], User = [], KeyFile = [], ScriptResult = [],
      ScriptReturnCode = 0, ScriptError = [], ResultPatternMatch = 0\<rparr>"

definition initial :: "Config \<Rightarrow> state" where
  "initial c =
     \<lparr>cfg = c, main = MLoop1 0, done_counter = 0, spawners = (\<lambda>k. None),
      tasks = (\<lambda>x. None), crashed = False, contacted = [], signals = []\<rparr>"

definition newSpawner :: "string \<Rightarrow> string \<Rightarrow> spawner" where
  "newSpawner script pattern =
     \<lparr>sp_script = script, sp_pattern = pattern, sp_pc = SCompile, sp_match = None,
      sp_i = 0, sp_c = zeroCredential\<rparr>"

definition setIgnored :: "nat \<Rightarrow> Config \<Rightarrow> Config" where
  "setIgnored i c = c\<lparr>Scripts := (Scripts c)[i := (Scripts c ! i)\<lparr>Ignored := True\<rparr>]\<rparr>"

definition slotOf :: "Config \<Rightarrow> nat \<Rightarrow> nat \<Rightarrow> CredentialConfig" where
  "slotOf c k i = Credentials (Scripts c ! k) ! i"

definition writeSlot :: "nat \<Rightarrow> nat \<Rightarrow> CredentialConfig \<Rightarrow> Config \<Rightarrow> Config" where
  "writeSlot k i slot c =
     c\<lparr>Scripts := (Scripts c)[k := (Scripts c ! k)
          \<lparr>Credentials := (Credentials (Scripts c ! k))[i := slot]\<rparr>]\<rparr>"

text \<open>The dispatcher's own statements, the \<open>select\<close> apart.\<close>

definition atSelect :: "state \<Rightarrow> bool" where
  "atSelect s =
     (case main s of
        MLoop2 k j \<Rightarrow>
          k < length (Scripts (cfg s)) \<and> \<not> Ignored (Scripts (cfg s) ! k) \<and>
          j < length (Credentials (Scripts (cfg s) ! k))
      | _ \<Rightarrow> False)"

definition mainStep :: "Regexp \<Rightarrow> state \<Rightarrow> state option" where
  "mainStep p s =
     (case main s of
        MLoop1 i \<Rightarrow>
          (if i < length (Scripts (cfg s)) then
             (let v = Scripts (cfg s) ! i
              in if p (Name v) \<noteq> True
                 then Some (s\<lparr>cfg := setIgnored i (cfg s), main := MLoop1 (Suc i)\<rparr>)
                 else Some (s\<lparr>spawners := (spawners s)(i \<mapsto> newSpawner (Script v) (Pattern v)),
                              main := MLoop1 (Suc i)\<rparr>))
           else Some (s\<lparr>main := MWait\<rparr>))
      | MWait \<Rightarrow> (if done_counter s = 0 then Some (s\<lparr>main := MLoop2 0 0\<rparr>) else None)
      | MLoop2 k j \<Rightarrow>
          (if k < length (Scripts (cfg s)) then
             (if atSelect s then None else Some (s\<lparr>main := MLoop2 (Suc k) 0\<rparr>))
           else Some (s\<lparr>main := MReturned None\<rparr>))
      | MReturned err \<Rightarrow> None)"

text \<open>The two branches of \<open>select\<close>: the timer of \<open>time.After\<close>, and a receive from \<open>t\<close>,
  which is a rendezvous with a task blocked in its send.\<close>

definition selectTimeout :: "state \<Rightarrow> state option" where
  "selectTimeout s =
     (case main s of
        MLoop2 k j \<Rightarrow>
          (if atSelect s
           then Some (s\<lparr>main := MLoop2 k (Suc j), signals := signals s @ [None]\<rparr>)
           else None)
      | _ \<Rightarrow> None)"

definition selectReceive :: "nat \<Rightarrow> nat \<Rightarrow> state \<Rightarrow> state option" where
  "selectReceive a b s =
     (case main s of
        MLoop2 k j \<Rightarrow>
          (if atSelect s \<and> tasks s (a, b) = Some TSend
           then Some (s\<lparr>main := MLoop2 k (Suc j), tasks := (tasks s)((a, b) \<mapsto> TDone),
                        signals := signals s @ [Some (a, b)]\<rparr>)
           else None)
      | _ \<Rightarrow> None)"

text \<open>\<open>executeScript\<close> for script \<open>k\<close>; \<open>creds\<close> points to \<open>c.Scripts[k].Credentials\<close>.\<close>

definition spawnerStep :: "env \<Rightarrow> nat \<Rightarrow> state \<Rightarrow> state option" where
  "spawnerStep e k s =
     (case spawners s k of
        None \<Rightarrow> None
      | Some sp \<Rightarrow>
          (case sp_pc sp of
             SCompile \<Rightarrow>
               Some (s\<lparr>spawners := (spawners s)
                        (k \<mapsto> sp\<lparr>sp_match := compilePattern e (sp_pattern sp), sp_pc := SRange 0\<rparr>)\<rparr>)
           | SRange j \<Rightarrow>
               (if j < length (Credentials (Scripts (cfg s) ! k))
                then Some (s\<lparr>spawners := (spawners s)
                             (k \<mapsto> sp\<lparr>sp_i := j, sp_c := slotOf (cfg s) k j, sp_pc := SRange (Suc j)\<rparr>),
                           done_counter := done_counter s + 1,
                           tasks := (tasks s)((k, j) \<mapsto> TCall)\<rparr>)
                else Some (s\<lparr>spawners := (spawners s)(k \<mapsto> sp\<lparr>sp_pc := SReturned\<rparr>)\<rparr>))
           | SReturned \<Rightarrow> None))"

text \<open>
  The goroutine that iteration \<open>j\<close> of \<open>executeScript\<close> for script \<open>k\<close> started. It reads
  the loop variables \<open>c\<close> and \<open>i\<close> of that call when it executes the statement that names
  them. The three stores and the pattern test are one step, which reads \<open>i\<close> once.
\<close>

definition taskStep :: "env \<Rightarrow> nat \<Rightarrow> nat \<Rightarrow> state \<Rightarrow> state option" where
  "taskStep e k j s =
     (case (tasks s (k, j), spawners s k) of
        (Some TCall, Some sp) \<Rightarrow>
          (let c = sp_c sp;
               called = contacted s @ [(k, Host c, Port c, User c, KeyFile c, sp_script sp)]
           in case executeScriptOnHost e (Host c) (Port c) (User c) (KeyFile c) (sp_script sp) of
                Inl pn \<Rightarrow> Some (s\<lparr>crashed := True, contacted := called\<rparr>)
              | Inr r \<Rightarrow>
                  Some (s\<lparr>tasks := (tasks s)((k, j) \<mapsto> TStore r), contacted := called\<rparr>))
      | (Some (TStore r), Some sp) \<Rightarrow>
          (let i = sp_i sp;
               stored = storeResult r (slotOf (cfg s) k i)
           in case storeMatch (sp_match sp) (fst r) stored of
                Inl pn \<Rightarrow> Some (s\<lparr>cfg := writeSlot k i stored (cfg s), crashed := True\<rparr>)
              | Inr slot \<Rightarrow>
                  Some (s\<lparr>cfg := writeSlot k i slot (cfg s),
                          tasks := (tasks s)((k, j) \<mapsto> TSend)\<rparr>))
      | (Some TDone, Some sp) \<Rightarrow>
          Some (s\<lparr>done_counter := done_counter s - 1, tasks := (tasks s)((k, j) \<mapsto> TExit)\<rparr>)
      | _ \<Rightarrow> None)"

text \<open>An action is one step of one goroutine. A panic in any goroutine ends the process.\<close>

datatype action =
    MainStep
  | SelectTimeout
  | SelectReceive nat nat
  | SpawnerStep nat
  | TaskStep nat nat

definition exec :: "env \<Rightarrow> Regexp \<Rightarrow> action \<Rightarrow> state \<Rightarrow> state option" where
  "exec e p a s =
     (if crashed s then None
      else case a of
             MainStep \<Rightarrow> mainStep p s
           | SelectTimeout \<Rightarrow> selectTimeout s
           | SelectReceive k j \<Rightarrow> selectReceive k j s
           | SpawnerStep k \<Rightarrow> spawnerStep e k s
           | TaskStep k j \<Rightarrow> taskStep e k j s)"

fun run :: "env \<Rightarrow> Regexp \<Rightarrow> action list \<Rightarrow> state \<Rightarrow> state option" where
  "run e p [] s = Some s"
| "run e p (a # as) s = (case exec e p a s of None \<Rightarrow> None | Some s' \<Rightarrow> run e p as s')"

text \<open>The states of \<open>BatchExecute(&c, p)\<close>, under every schedule.\<close>

inductive reach :: "env \<Rightarrow> Regexp \<Rightarrow> Config \<Rightarrow> state \<Rightarrow> bool" for e p c where
  start: "reach e p c (initial c)"
| step: "reach e p c s \<Longrightarrow> exec e p a s = Some s' \<Longrightarrow> reach e p c s'"

text \<open>The configuration without its \<open>k\<close>-th script.\<close>

definition dropScript :: "nat \<Rightarrow> Config \<Rightarrow> Config" where
  "dropScript k c = c\<lparr>Scripts := take k (Scripts c) @ drop (Suc k) (Scripts c)\<rparr>"

text \<open>
  The number of \<open>select\<close> statements the second loop executes for a script, the hosts of
  the selected scripts, and the signals among the outcomes of \<open>select\<close>.
\<close>

definition hostsOf :: "ScriptConfig \<Rightarrow> nat" where
  "hostsOf v = (if Ignored v then 0 else length (Credentials v))"


definition received :: "(nat \<times> nat) option list \<Rightarrow> (nat \<times> nat) list" where
  "received sigs = concat (map (\<lambda>x. case x of None \<Rightarrow> [] | Some t \<Rightarrow> [t]) sigs)"

section \<open>Invariants of the dispatcher\<close>

text \<open>
  A script the name filter rejects: no \<open>executeScript\<close> was started for it, no host
  goroutine exists for it, no call of \<open>executeScriptOnHost\<close> carries its index, and once
  the first loop has passed it, it is marked ignored.
\<close>

definition skipped :: "nat \<Rightarrow> state \<Rightarrow> bool" where
  "skipped k s \<longleftrightarrow>
     spawners s k = None \<and> (\<forall>j. tasks s (k, j) = None) \<and>
     (\<forall>ev \<in> set (contacted s). fst ev \<noteq> k) \<and>
     (case main s of MLoop1 i \<Rightarrow> k < i \<longrightarrow> Ignored (Scripts (cfg s) ! k)
      | _ \<Rightarrow> Ignored (Scripts (cfg s) ! k))"







section \<open>Concrete inputs\<close>

text \<open>
  An environment and configurations on which the theorems below are evaluated. The
  environment has one unreachable host, one key file that cannot be read (\<open>/noop\<close>), a
  command that exits with status 3, a command whose exit status is missing, and a
  pattern that does not compile.
\<close>

definition exampleEnv :: env where
  "exampleEnv =
     \<lparr>ioutil_ReadFile = (\<lambda>path. if path = ''/noop'' then Inl ''open /noop: no such file or directory''
                                 else Inr ''PRIVATE KEY''),
      ssh_ParsePrivateKey = (\<lambda>buf. if buf = [] then Inl ''ssh: no key found'' else Inr (Signer buf)),
      ssh_Dial = (\<lambda>addr user key.
                    if addr = ''down.example.com:22''
                    then Inr (Inl ''dial tcp: connection refused'')
                    else case key of None \<Rightarrow> Inl NilPointerDereference
                         | Some k \<Rightarrow> Inr (Inr (Client 0))),
      client_NewSession = (\<lambda>client. Inr (Session 0)),
      session_CombinedOutput = (\<lambda>session script.
                    if script = ''exit 3'' then ([], Some ''Process exited with status 3'')
                    else if script = ''kill -9 $$''
                    then ([], Some ''wait: remote command exited without exit status or exit signal'')
                    else (''hi foo'' @ [newline] @ ''bye'' @ [newline], None)),
      fmt_Sscanf = (\<lambda>input format.
                    if format = ''Process exited with status %d'' \<and>
                       input = ''Process exited with status 3''
                    then Some 3 else None),
      regexp_Compile = (\<lambda>pattern.
                    if pattern = ''('' then Inl ''error parsing regexp: missing closing )''
                    else if pattern = ''.*'' then Inr (\<lambda>s. True)
                    else Inr (sublist pattern)),
      time_ParseDuration = (\<lambda>s.
                    if s = ''10s'' then Inr 10000000000
                    else if s = ''5s'' then Inr 5000000000
                    else Inl (''time: invalid duration '' @ s))\<rparr>"

definition exampleCred :: "string \<Rightarrow> string \<Rightarrow> CredentialConfig" where
  "exampleCred host port =
     \<lparr>Host = host, Port = port, User = ''someuser'', KeyFile = ''/path/to/private/key'',
      ScriptResult = [], ScriptReturnCode = 0, ScriptError = [], ResultPatternMatch = 0\<rparr>"

definition exampleScript :: "string \<Rightarrow> string \<Rightarrow> string \<Rightarrow> string \<Rightarrow> CredentialConfig list \<Rightarrow> ScriptConfig" where
  "exampleScript name script timeout pattern creds =
     \<lparr>Name = name, Script = script, Timeout = timeout, Pattern = pattern,
      Credentials = creds, ParsedTimeout = 0, Ignored = False\<rparr>"

text \<open>The configuration of \<open>TestUnitPrometheusFormatResponse\<close>.\<close>

definition unitConfig :: Config where
  "unitConfig =
     \<lparr>Version = ''v0'',
      Scripts =
        [\<lparr>Name = ''scriptName'', Script = ''echo foo'', Timeout = ''5s'', Pattern = ''foo'',
          Credentials =
            [\<lparr>Host = ''localhost'', Port = ''2222'', User = ''username'', KeyFile = ''/noop'',
              ScriptResult = ''foo'', ScriptReturnCode = 0, ScriptError = [],
              ResultPatternMatch = 1\<rparr>],
          ParsedTimeout = 1000000000, Ignored = False\<rparr>]\<rparr>"

text \<open>A script with an unparsable timeout, a host without a port and a host with one.\<close>

definition portConfig :: Config where
  "portConfig =
     \<lparr>Version = ''v0'',
      Scripts =
        [exampleScript ''echo_output'' ''echo hi'' ''soon'' ''hi''
           [exampleCred ''up.example.com'' [], exampleCred ''up.example.com'' ''2222'']]\<rparr>"

text \<open>
  A name filter that accepts exactly one name (the pattern \<open>^echo_output$\<close>), a
  configuration with a script it selects and one it rejects, and a configuration whose
  only script has a pattern that does not compile.
\<close>

definition exactly :: "string \<Rightarrow> Regexp" where
  "exactly n = (\<lambda>s. s = n)"

definition probeConfig :: Config where
  "probeConfig =
     \<lparr>Version = ''v0'',
      Scripts =
        [exampleScript ''echo_output'' ''echo hi'' ''5s'' ''foo''
           [exampleCred ''up.example.com'' ''22''],
         exampleScript ''unrelated_check'' ''exit 3'' ''5s'' ''ok''
           [exampleCred ''down.example.com'' ''22'']]\<rparr>"

definition badPatternConfig :: Config where
  "badPatternConfig =
     \<lparr>Version = ''v0'',
      Scripts =
        [exampleScript ''echo_output'' ''echo hi'' ''5s'' ''(''
           [exampleCred ''up.example.com'' ''22'']]\<rparr>"

text \<open>The second configuration after a probe in which every goroutine ran to its end.\<close>

definition probeResult :: Config where
  "probeResult =
     \<lparr>Version = ''v0'',
      Scripts =
        [\<lparr>Name = ''echo_output'', Script = ''echo hi'', Timeout = ''5s'', Pattern = ''foo'',
          Credentials =
            [\<lparr>Host = ''up.example.com'', Port = ''22'', User = ''someuser'',
              KeyFile = ''/path/to/private/key'',
              ScriptResult = ''hi foo'' @ [backslash] @ ''nbye'' @ [backslash] @ ''n'',
              ScriptReturnCode = 0, ScriptError = [], ResultPatternMatch = 1\<rparr>],
          ParsedTimeout = 0, Ignored = False\<rparr>,
         \<lparr>Name = ''unrelated_check'', Script = ''exit 3'', Timeout = ''5s'', Pattern = ''ok'',
          Credentials =
            [\<lparr>Host = ''down.example.com'', Port = ''22'', User = ''someuser'',
              KeyFile = ''/path/to/private/key'', ScriptResult = [], ScriptReturnCode = 0,
              ScriptError = [], ResultPatternMatch = 0\<rparr>],
          ParsedTimeout = 0, Ignored = True\<rparr>]\<rparr>"


definition crashSchedule :: "action list" where
  "crashSchedule = [MainStep, SpawnerStep 0, SpawnerStep 0, TaskStep 0 0, TaskStep 0 0]"

definition probeSchedule :: "action list" where
  "probeSchedule =
     [MainStep, MainStep, MainStep, MainStep, SpawnerStep 0, SpawnerStep 0, SpawnerStep 0,
      TaskStep 0 0, TaskStep 0 0, SelectReceive 0 0, MainStep, MainStep, MainStep,
      TaskStep 0 0]"

section \<open>Properties of the formatter\<close>

lemma appendLines_eq:
  "appendLines f response js = response @ concat (map (\<lambda>j. newline # f j) js)"
  by (induction js arbitrary: response) simp_all

lemma terminated_Cons: "terminated (l # ls) = l @ newline # terminated ls"
  by (simp add: terminated_def)

lemma terminated_shift:
  "l @ concat (map (\<lambda>j. newline # f j) js) @ [newline] = terminated (l # map f js)"
proof (induction js arbitrary: l)
  case Nil
  then show ?case by (simp add: terminated_def)
next
  case (Cons j js)
  have "l @ concat (map (\<lambda>j. newline # f j) (j # js)) @ [newline]
        = l @ newline # (f j @ concat (map (\<lambda>j. newline # f j) js) @ [newline])"
    by simp
  also have "\<dots> = l @ newline # terminated (f j # map f js)"
    by (simp only: Cons.IH)
  finally show ?case
    by (simp add: terminated_Cons)
qed

lemma formatScript_eq:
  "formatScript response i = response @ (if Ignored i then [] else scriptBlock i)"
proof (cases "Ignored i")
  case True
  then show ?thesis by (simp add: formatScript_def)
next
  case False
  let ?e = "exitStatusHelpStr (Name i)" and ?m = "patternMatchHelpStr (Name i)"
  let ?E = "concat (map (\<lambda>j. newline # exitStatusLine i j) (Credentials i))"
  let ?M = "concat (map (\<lambda>j. newline # patternMatchLine i j) (Credentials i))"
  have "formatScript response i = response @ (?e @ ?E @ [newline]) @ (?m @ ?M @ [newline])"
    using False by (simp add: formatScript_def Let_def appendLines_eq)
  also have "\<dots> = response @ terminated (?e # map (exitStatusLine i) (Credentials i))
                    @ terminated (?m # map (patternMatchLine i) (Credentials i))"
    by (simp only: terminated_shift)
  also have "\<dots> = response @ scriptBlock i"
    by (simp add: scriptBlock_def scriptLines_def terminated_def)
  finally show ?thesis using False by simp
qed

lemma formatScripts_eq:
  "formatScripts response scs =
     response @ concat (map (\<lambda>i. if Ignored i then [] else scriptBlock i) scs)"
  by (induction scs arbitrary: response) (simp_all add: formatScript_eq)

lemma concat_map_if_filter:
  "concat (map (\<lambda>i. if P i then [] else f i) xs) = concat (map f (filter (\<lambda>i. \<not> P i) xs))"
  by (induction xs) simp_all

lemma formatScripts_blocks:
  "formatScripts [] scs = concat (map scriptBlock (filter (\<lambda>i. \<not> Ignored i) scs))"
  by (simp add: formatScripts_eq concat_map_if_filter)

lemma specScriptBlock_eq: "specScriptBlock i = scriptBlock i @ [newline]"
  by (simp add: specScriptBlock_def scriptBlock_def terminated_def)

lemmas layout_defs =
  scriptBlock_def scriptLines_def terminated_def exitStatusHelpStr_def patternMatchHelpStr_def
  exitStatusLine_def patternMatchLine_def exitStatusFormatStr_def patternMatchFormatStr_def
  fmt_d_def decimal.simps digitChar_def

text \<open>
  Claim C7, as the code has it. For every configuration the formatter emits, for each
  script that is not ignored and in configuration order, the exit-status header, one
  exit-status line per host in configuration order, the pattern-match header and one
  pattern-match line per host in configuration order, every line terminated by a single
  newline. The newline after the last pattern-match line ends the block: no blank line
  follows it, and the next block starts on the next line.
\<close>

theorem formatter_layout:
  "PrometheusFormatResponse c =
     (concat (map scriptBlock (filter (\<lambda>i. \<not> Ignored i) (Scripts c))), None)"
  by (simp add: PrometheusFormatResponse_def formatScripts_blocks)

theorem formatter_layout_witness:
  \<open>fst (PrometheusFormatResponse unitConfig) =
     ''# HELP ssh_exporter_scriptName_exit_status Integer exit status of commands and metadata about the command's execution.'' @ [newline] @
     ''# TYPE ssh_exporter gauge'' @ [newline] @
     ''ssh_exporter_scriptName_exit_status{name="scriptName",host="localhost",user="username",script="echo foo",exit_status="0"} 0'' @ [newline] @
     ''# HELP ssh_exporter_scriptName_pattern_match Boolean match of regex on output of script of commands and metadata about the command's execution.'' @ [newline] @
     ''# TYPE ssh_exporter gauge'' @ [newline] @
     ''ssh_exporter_scriptName_pattern_match{name="scriptName",host="localhost",user="username",script="echo foo",regex="foo"} 1'' @ [newline]\<close>
  using formatter_layout [of unitConfig]
  by (simp add: unitConfig_def layout_defs)

text \<open>
  Claim C7 as the specification states it, with a blank line terminating each block,
  fails on the configuration of the repository's unit test: the document the code
  renders is one newline shorter than the specified one.
\<close>

theorem formatter_blank_line_counterexample:
  "fst (PrometheusFormatResponse unitConfig) \<noteq> specDocument unitConfig"
proof -
  have "specDocument unitConfig = fst (PrometheusFormatResponse unitConfig) @ [newline]"
    by (simp add: specDocument_def PrometheusFormatResponse_def formatScripts_blocks
        specScriptBlock_eq unitConfig_def del: formatScripts.simps)
  then show ?thesis by simp
qed

section \<open>Properties of configuration normalisation\<close>

lemma adjustConfig_Scripts:
  "Scripts (fst (adjustConfig e c)) = map (adjustScript e) (Scripts c)"
  by (simp add: adjustConfig_def)

lemma adjustScript_Credentials:
  "Credentials (adjustScript e s) = map adjustCredential (Credentials s)"
  by (simp add: adjustScript_def Let_def split: sum.splits)

text \<open>
  Claim C9. For every configuration, \<open>adjustConfig\<close> sets the port of every host
  credential whose port is empty to \<open>22\<close>, and leaves a non-empty port as configured.
\<close>

theorem port_defaults_to_22:
  assumes "i < length (Scripts c)" and "j < length (Credentials (Scripts c ! i))"
  shows "Port (Credentials (Scripts (fst (adjustConfig e c)) ! i) ! j) =
           (if Port (Credentials (Scripts c ! i) ! j) = [] then ''22''
            else Port (Credentials (Scripts c ! i) ! j))"
  using assms
  by (simp add: adjustConfig_Scripts adjustScript_Credentials adjustCredential_def)

theorem port_defaults_to_22_witness:
  "Port (Credentials (Scripts (fst (adjustConfig exampleEnv portConfig)) ! 0) ! 0) = ''22'' \<and>
   Port (Credentials (Scripts (fst (adjustConfig exampleEnv portConfig)) ! 0) ! 1) = ''2222''"
  using port_defaults_to_22 [of 0 portConfig 0 exampleEnv]
    port_defaults_to_22 [of 0 portConfig 1 exampleEnv]
  by (simp add: portConfig_def exampleScript_def exampleCred_def)

text \<open>
  Claim C8. For every configuration, a script whose timeout string does not parse does
  not abort \<open>adjustConfig\<close>: it returns the configuration with a nil error, and that
  script's \<open>ParsedTimeout\<close> is what \<open>time.ParseDuration("10s")\<close> yields, ten seconds.
\<close>

theorem timeout_falls_back_to_10s:
  assumes "i < length (Scripts c)"
    and "time_ParseDuration e (Timeout (Scripts c ! i)) = Inl err"
    and "time_ParseDuration e ''10s'' = Inr (10 * 1000000000)"
  shows "snd (adjustConfig e c) = None \<and>
         length (Scripts (fst (adjustConfig e c))) = length (Scripts c) \<and>
         ParsedTimeout (Scripts (fst (adjustConfig e c)) ! i) = 10 * 1000000000"
  using assms
  by (simp add: adjustConfig_def adjustScript_def Let_def)

theorem timeout_falls_back_to_10s_witness:
  "time_ParseDuration exampleEnv (Timeout (Scripts portConfig ! 0)) =
     Inl ''time: invalid duration soon'' \<and>
   snd (adjustConfig exampleEnv portConfig) = None \<and>
   ParsedTimeout (Scripts (fst (adjustConfig exampleEnv portConfig)) ! 0) = 10000000000"
  using timeout_falls_back_to_10s [of 0 portConfig exampleEnv "''time: invalid duration soon''"]
  by (simp add: portConfig_def exampleScript_def exampleEnv_def)

section \<open>Properties of the per-host executor\<close>

lemma literalFormat_append: "literalFormat (xs @ ys) = literalFormat xs @ literalFormat ys"
  by (induction xs) simp_all

lemma literalFormat_concat:
  "literalFormat xs = concat (map (\<lambda>ch. if ch = newline then [backslash, CHR ''n''] else [ch]) xs)"
  by (induction xs) simp_all

lemma literalFormat_no_newline: "newline \<notin> set (literalFormat xs)"
  by (induction xs) (simp_all add: newline_def backslash_def)

lemma literalFormat_id: "newline \<notin> set xs \<Longrightarrow> literalFormat xs = xs"
  by (induction xs) auto

lemma literalFormat_sublist:
  assumes "sublist p out" and "newline \<notin> set p"
  shows "sublist p (literalFormat out)"
proof -
  from assms(1) obtain ps ss where "out = ps @ p @ ss"
    by (auto simp: sublist_def)
  then have "literalFormat out = literalFormat ps @ p @ literalFormat ss"
    using assms(2) by (simp add: literalFormat_append literalFormat_id)
  then show ?thesis
    by (auto simp: sublist_def)
qed

text \<open>What \<open>executeScriptOnHost\<close> returns on each of its three return paths.\<close>

lemma executeScriptOnHost_connect_fails:
  assumes "sshConnectToHost e host port user keyfile = Inr (Inl err)"
  shows "executeScriptOnHost e host port user keyfile script = Inr ([], - 1, Some err)"
  using assms by (simp add: executeScriptOnHost_def)

lemma executeScriptOnHost_success:
  assumes "sshConnectToHost e host port user keyfile = Inr (Inr (client, session))"
    and "session_CombinedOutput e session script = (out, None)"
  shows "executeScriptOnHost e host port user keyfile script = Inr (literalFormat out, 0, None)"
  using assms by (simp add: executeScriptOnHost_def)

lemma executeScriptOnHost_command_fails:
  assumes "sshConnectToHost e host port user keyfile = Inr (Inr (client, session))"
    and "session_CombinedOutput e session script = (out, Some err)"
  shows "executeScriptOnHost e host port user keyfile script =
           Inr ([], (case fmt_Sscanf e err ''Process exited with status %d'' of
                       Some n \<Rightarrow> if n \<noteq> 0 then n else - 1 | None \<Rightarrow> - 1), Some err)"
  using assms by (simp add: executeScriptOnHost_def Let_def split: option.splits)

text \<open>A panic of the transport is a panic of the goroutine: nothing is recorded.\<close>

lemma hostTask_transport_panics:
  assumes "sshConnectToHost e (Host c) (Port c) (User c) (KeyFile c) = Inl pn"
  shows "hostTask e match script c slot = Inl pn"
  using assms by (simp add: hostTask_def executeScriptOnHost_def)

lemma hostTask_connect_fails:
  assumes "sshConnectToHost e (Host c) (Port c) (User c) (KeyFile c) = Inr (Inl err)"
  shows "hostTask e (Some re) script c slot =
           Inr (slot\<lparr>ScriptReturnCode := - 1, ScriptResult := [], ScriptError := err,
                     ResultPatternMatch := (if re [] then 1 else 0)\<rparr>)"
  using executeScriptOnHost_connect_fails [OF assms, of script]
  by (simp add: hostTask_def storeResult_def storeMatch_def)

lemma hostTask_success:
  assumes "sshConnectToHost e (Host c) (Port c) (User c) (KeyFile c) = Inr (Inr (client, session))"
    and "session_CombinedOutput e session script = (out, None)"
  shows "hostTask e (Some re) script c slot =
           Inr (slot\<lparr>ScriptReturnCode := 0, ScriptResult := literalFormat out,
                     ResultPatternMatch := (if re (literalFormat out) then 1 else 0)\<rparr>)"
  using executeScriptOnHost_success [OF assms]
  by (simp add: hostTask_def storeResult_def storeMatch_def)

lemma storeMatch_keeps_result:
  assumes "storeMatch match result stored = Inr slot'"
  shows "ScriptResult slot' = ScriptResult stored \<and>
         ScriptReturnCode slot' = ScriptReturnCode stored \<and>
         ScriptError slot' = ScriptError stored"
  using assms by (auto simp: storeMatch_def split: option.splits if_splits)

lemmas executor_defs =
  hostTask_def executeScriptOnHost_def sshConnectToHost_def getKeyFile_def storeResult_def
  storeMatch_def compilePattern_def exampleEnv_def exampleCred_def

text \<open>
  Claim C2, as the code has it. For every host on which the connection step returns an
  error (\<open>sshConnectToHost\<close> returns a non-nil \<open>err\<close>), the recorded result has exit
  status \<open>-1\<close>, empty output and the failure detail as error text; the pattern is still
  tested, against the empty output, so \<open>ResultPatternMatch\<close> is 1 exactly when the
  script's compiled pattern matches the empty string, and 0 otherwise. The statement is
  about the connection steps that return: one in which the transport panics returns no
  error and is not covered.
\<close>

theorem connection_failure_recorded:
  assumes "sshConnectToHost e (Host c) (Port c) (User c) (KeyFile c) = Inr (Inl err)"
    and "regexp_Compile e pattern = Inr re"
  shows "hostTask e (compilePattern e pattern) script c slot =
           Inr (slot\<lparr>ScriptReturnCode := - 1, ScriptResult := [], ScriptError := err,
                     ResultPatternMatch := (if re [] then 1 else 0)\<rparr>)"
  using assms by (simp add: compilePattern_def hostTask_connect_fails)

theorem connection_failure_recorded_witness:
  "sshConnectToHost exampleEnv ''down.example.com'' ''22'' ''someuser'' ''/path/to/private/key'' =
     Inr (Inl ''dial tcp: connection refused'') \<and>
   regexp_Compile exampleEnv ''foo'' = Inr (sublist ''foo'') \<and>
   hostTask exampleEnv (compilePattern exampleEnv ''foo'') ''echo hi''
       (exampleCred ''down.example.com'' ''22'') (exampleCred ''down.example.com'' ''22'') =
     Inr \<lparr>Host = ''down.example.com'', Port = ''22'', User = ''someuser'',
          KeyFile = ''/path/to/private/key'', ScriptResult = [], ScriptReturnCode = - 1,
          ScriptError = ''dial tcp: connection refused'', ResultPatternMatch = 0\<rparr>"
proof -
  have connect:
    "sshConnectToHost exampleEnv (Host (exampleCred ''down.example.com'' ''22''))
       (Port (exampleCred ''down.example.com'' ''22'')) (User (exampleCred ''down.example.com'' ''22''))
       (KeyFile (exampleCred ''down.example.com'' ''22'')) =
     Inr (Inl ''dial tcp: connection refused'')"
    by (simp add: executor_defs)
  have compiled: "regexp_Compile exampleEnv ''foo'' = Inr (sublist ''foo'')"
    by (simp add: exampleEnv_def)
  have nomatch: "\<not> sublist ''foo'' []"
    by simp
  show ?thesis
    using connection_failure_recorded [OF connect compiled, of "''echo hi''"
        "exampleCred ''down.example.com'' ''22''"] connect compiled nomatch
    by (simp add: exampleCred_def)
qed

text \<open>
  Claim C2 as the specification states it fails for a pattern that matches the empty
  string: with the pattern \<open>.*\<close> and an unreachable host, the connection step returns an
  error and the recorded \<open>ResultPatternMatch\<close> is 1.
\<close>

theorem connection_failure_matched_counterexample:
  "sshConnectToHost exampleEnv ''down.example.com'' ''22'' ''someuser'' ''/path/to/private/key'' =
     Inr (Inl ''dial tcp: connection refused'') \<and>
   hostTask exampleEnv (compilePattern exampleEnv ''.*'') ''echo hi''
       (exampleCred ''down.example.com'' ''22'') (exampleCred ''down.example.com'' ''22'') =
     Inr \<lparr>Host = ''down.example.com'', Port = ''22'', User = ''someuser'',
          KeyFile = ''/path/to/private/key'', ScriptResult = [], ScriptReturnCode = - 1,
          ScriptError = ''dial tcp: connection refused'', ResultPatternMatch = 1\<rparr>"
  by (simp add: executor_defs)

text \<open>
  Claim C4. For every host on which the command completes with exit status zero (the
  transport returns no error), the recorded output is the combined output with every
  newline replaced by backslash and \<open>n\<close>, so it contains no newline; the recorded exit
  status is 0; and \<open>ResultPatternMatch\<close> is 1 if the script's compiled pattern matches
  the escaped output and 0 otherwise. In particular, when the compiled pattern \<open>foo\<close>
  tests for the substring \<open>foo\<close>, an output containing \<open>foo\<close> is recorded as matched.
\<close>

theorem successful_command_recorded:
  assumes "sshConnectToHost e (Host c) (Port c) (User c) (KeyFile c) = Inr (Inr (client, session))"
    and "session_CombinedOutput e session script = (out, None)"
    and "regexp_Compile e pattern = Inr re"
  shows "hostTask e (compilePattern e pattern) script c slot =
           Inr (slot\<lparr>ScriptReturnCode := 0, ScriptResult := literalFormat out,
                     ResultPatternMatch := (if re (literalFormat out) then 1 else 0)\<rparr>) \<and>
         literalFormat out =
           concat (map (\<lambda>ch. if ch = newline then [backslash, CHR ''n''] else [ch]) out) \<and>
         newline \<notin> set (literalFormat out) \<and>
         (re = sublist ''foo'' \<and> sublist ''foo'' out \<longrightarrow> re (literalFormat out))"
proof -
  have "sublist ''foo'' out \<Longrightarrow> sublist ''foo'' (literalFormat out)"
    by (rule literalFormat_sublist) (simp_all add: newline_def)
  then show ?thesis
    using assms
    by (simp add: compilePattern_def hostTask_success literalFormat_no_newline
        literalFormat_concat [symmetric])
qed

theorem successful_command_recorded_witness:
  "sshConnectToHost exampleEnv ''up.example.com'' ''22'' ''someuser'' ''/path/to/private/key'' =
     Inr (Inr (Client 0, Session 0)) \<and>
   session_CombinedOutput exampleEnv (Session 0) ''echo hi'' =
     (''hi foo'' @ [newline] @ ''bye'' @ [newline], None) \<and>
   regexp_Compile exampleEnv ''foo'' = Inr (sublist ''foo'') \<and>
   hostTask exampleEnv (compilePattern exampleEnv ''foo'') ''echo hi''
       (exampleCred ''up.example.com'' ''22'') (exampleCred ''up.example.com'' ''22'') =
     Inr \<lparr>Host = ''up.example.com'', Port = ''22'', User = ''someuser'',
          KeyFile = ''/path/to/private/key'',
          ScriptResult = ''hi foo'' @ [backslash] @ ''nbye'' @ [backslash] @ ''n'',
          ScriptReturnCode = 0, ScriptError = [], ResultPatternMatch = 1\<rparr>"
proof -
  let ?c = "exampleCred ''up.example.com'' ''22''"
  let ?out = "''hi foo'' @ [newline] @ ''bye'' @ [newline]"
  have connect:
    "sshConnectToHost exampleEnv (Host ?c) (Port ?c) (User ?c) (KeyFile ?c) =
       Inr (Inr (Client 0, Session 0))"
    by (simp add: executor_defs)
  have ran: "session_CombinedOutput exampleEnv (Session 0) ''echo hi'' = (?out, None)"
    by (simp add: exampleEnv_def)
  have compiled: "regexp_Compile exampleEnv ''foo'' = Inr (sublist ''foo'')"
    by (simp add: exampleEnv_def)
  have contains: "sublist ''foo'' ?out"
    unfolding sublist_def by (rule exI [of _ "''hi ''"]) simp
  have escaped: "literalFormat ?out = ''hi foo'' @ [backslash] @ ''nbye'' @ [backslash] @ ''n''"
    by (simp add: newline_def)
  note recorded = successful_command_recorded [OF connect ran compiled, of ?c]
  from recorded contains have matched: "sublist ''foo'' (literalFormat ?out)"
    by blast
  from recorded have
    "hostTask exampleEnv (compilePattern exampleEnv ''foo'') ''echo hi'' ?c ?c =
       Inr (?c\<lparr>ScriptReturnCode := 0, ScriptResult := literalFormat ?out,
                 ResultPatternMatch := (if sublist ''foo'' (literalFormat ?out) then 1 else 0)\<rparr>)"
    by (rule conjunct1)
  with matched have task:
    "hostTask exampleEnv (compilePattern exampleEnv ''foo'') ''echo hi'' ?c ?c =
       Inr (?c\<lparr>ScriptReturnCode := 0, ScriptResult := literalFormat ?out,
                 ResultPatternMatch := 1\<rparr>)"
    by (simp only: if_True)
  show ?thesis
    unfolding task escaped using connect ran compiled
    by (simp add: exampleCred_def)
qed

text \<open>
  Claim C5. For every host on which the command fails after the connection succeeded
  (the transport returns an error, as it does for a non-zero exit), whatever the script's
  pattern: \<open>executeScriptOnHost\<close> returns, and what the goroutine stores into the slot has
  an empty output and, as exit status, the number \<open>fmt.Sscanf\<close> extracts from the error
  text with the format \<open>Process exited with status %d\<close> when that number is not zero,
  and \<open>-1\<close> when nothing is extracted. The pattern test that follows, when it returns,
  leaves both as stored.
\<close>

theorem failed_command_recorded:
  assumes "sshConnectToHost e (Host c) (Port c) (User c) (KeyFile c) = Inr (Inr (client, session))"
    and "session_CombinedOutput e session script = (out, Some err)"
  shows "\<exists>r. executeScriptOnHost e (Host c) (Port c) (User c) (KeyFile c) script = Inr r \<and>
           ScriptResult (storeResult r slot) = [] \<and>
           (\<forall>n. fmt_Sscanf e err ''Process exited with status %d'' = Some n \<and> n \<noteq> 0 \<longrightarrow>
                ScriptReturnCode (storeResult r slot) = n) \<and>
           (fmt_Sscanf e err ''Process exited with status %d'' = None \<longrightarrow>
                ScriptReturnCode (storeResult r slot) = - 1) \<and>
           (\<forall>match slot'. hostTask e match script c slot = Inr slot' \<longrightarrow>
                ScriptResult slot' = [] \<and>
                ScriptReturnCode slot' = ScriptReturnCode (storeResult r slot))"
proof -
  let ?code = "case fmt_Sscanf e err ''Process exited with status %d'' of
                 Some n \<Rightarrow> if n \<noteq> 0 then n else - 1 | None \<Rightarrow> - 1"
  let ?r = "([], ?code, Some err)"
  have call: "executeScriptOnHost e (Host c) (Port c) (User c) (KeyFile c) script = Inr ?r"
    using assms by (rule executeScriptOnHost_command_fails)
  have stored: "ScriptResult (storeResult ?r slot) = []"
    "ScriptReturnCode (storeResult ?r slot) = ?code"
    by (simp_all add: storeResult_def)
  have kept: "ScriptResult slot' = [] \<and>
      ScriptReturnCode slot' = ScriptReturnCode (storeResult ?r slot)"
    if "hostTask e match script c slot = Inr slot'" for match slot'
  proof -
    from that call have "storeMatch match (fst ?r) (storeResult ?r slot) = Inr slot'"
      by (simp add: hostTask_def)
    from storeMatch_keeps_result [OF this] stored(1) show ?thesis by simp
  qed
  have some: "ScriptReturnCode (storeResult ?r slot) = n"
    if "fmt_Sscanf e err ''Process exited with status %d'' = Some n" "n \<noteq> 0" for n
    using that stored(2) by simp
  have none: "ScriptReturnCode (storeResult ?r slot) = - 1"
    if "fmt_Sscanf e err ''Process exited with status %d'' = None"
    using that stored(2) by simp
  show ?thesis
    using call stored(1) some none kept by (intro exI [of _ ?r]) blast
qed

theorem failed_command_recorded_witness:
  "sshConnectToHost exampleEnv ''up.example.com'' ''22'' ''someuser'' ''/path/to/private/key'' =
     Inr (Inr (Client 0, Session 0)) \<and>
   session_CombinedOutput exampleEnv (Session 0) ''exit 3'' =
     ([], Some ''Process exited with status 3'') \<and>
   fmt_Sscanf exampleEnv ''Process exited with status 3'' ''Process exited with status %d'' =
     Some 3 \<and>
   executeScriptOnHost exampleEnv ''up.example.com'' ''22'' ''someuser'' ''/path/to/private/key''
       ''exit 3'' = Inr ([], 3, Some ''Process exited with status 3'') \<and>
   hostTask exampleEnv (compilePattern exampleEnv ''foo'') ''exit 3''
       (exampleCred ''up.example.com'' ''22'') (exampleCred ''up.example.com'' ''22'') =
     Inr \<lparr>Host = ''up.example.com'', Port = ''22'', User = ''someuser'',
          KeyFile = ''/path/to/private/key'', ScriptResult = [], ScriptReturnCode = 3,
          ScriptError = ''Process exited with status 3'', ResultPatternMatch = 0\<rparr> \<and>
   hostTask exampleEnv (compilePattern exampleEnv ''('') ''exit 3''
       (exampleCred ''up.example.com'' ''22'') (exampleCred ''up.example.com'' ''22'') =
     Inl NilPointerDereference \<and>
   fmt_Sscanf exampleEnv ''wait: remote command exited without exit status or exit signal''
       ''Process exited with status %d'' = None \<and>
   hostTask exampleEnv (compilePattern exampleEnv ''foo'') ''kill -9 $$''
       (exampleCred ''up.example.com'' ''22'') (exampleCred ''up.example.com'' ''22'') =
     Inr \<lparr>Host = ''up.example.com'', Port = ''22'', User = ''someuser'',
          KeyFile = ''/path/to/private/key'', ScriptResult = [], ScriptReturnCode = - 1,
          ScriptError = ''wait: remote command exited without exit status or exit signal'',
          ResultPatternMatch = 0\<rparr>"
proof -
  let ?c = "exampleCred ''up.example.com'' ''22''"
  have others:
    "hostTask exampleEnv (compilePattern exampleEnv ''('') ''exit 3'' ?c ?c =
       Inl NilPointerDereference \<and>
     fmt_Sscanf exampleEnv ''wait: remote command exited without exit status or exit signal''
       ''Process exited with status %d'' = None \<and>
     hostTask exampleEnv (compilePattern exampleEnv ''foo'') ''kill -9 $$'' ?c ?c =
       Inr \<lparr>Host = ''up.example.com'', Port = ''22'', User = ''someuser'',
          KeyFile = ''/path/to/private/key'', ScriptResult = [], ScriptReturnCode = - 1,
          ScriptError = ''wait: remote command exited without exit status or exit signal'',
          ResultPatternMatch = 0\<rparr>"
    by (simp add: executor_defs)
  have connect:
    "sshConnectToHost exampleEnv (Host ?c) (Port ?c) (User ?c) (KeyFile ?c) =
       Inr (Inr (Client 0, Session 0))"
    by (simp add: executor_defs)
  have ran:
    "session_CombinedOutput exampleEnv (Session 0) ''exit 3'' =
       ([], Some ''Process exited with status 3'')"
    by (simp add: exampleEnv_def)
  have scanned:
    "fmt_Sscanf exampleEnv ''Process exited with status 3'' ''Process exited with status %d'' =
       Some 3"
    by (simp add: exampleEnv_def)
  have task:
    "hostTask exampleEnv (compilePattern exampleEnv ''foo'') ''exit 3'' ?c ?c =
       Inr \<lparr>Host = ''up.example.com'', Port = ''22'', User = ''someuser'',
          KeyFile = ''/path/to/private/key'', ScriptResult = [], ScriptReturnCode = 3,
          ScriptError = ''Process exited with status 3'', ResultPatternMatch = 0\<rparr>"
    by (simp add: executor_defs)
  from failed_command_recorded [OF connect ran, of ?c]
  obtain r where r:
    "executeScriptOnHost exampleEnv (Host ?c) (Port ?c) (User ?c) (KeyFile ?c) ''exit 3'' = Inr r"
    "ScriptResult (storeResult r ?c) = []"
    "ScriptReturnCode (storeResult r ?c) = 3"
    using scanned by auto
  have call:
    "executeScriptOnHost exampleEnv ''up.example.com'' ''22'' ''someuser''
       ''/path/to/private/key'' ''exit 3'' = Inr ([], 3, Some ''Process exited with status 3'')"
    by (simp add: executor_defs)
  show ?thesis
    using r connect ran scanned task call others by (simp add: exampleCred_def)
qed

section \<open>Properties of the batch dispatcher\<close>

lemma map_update_same: "f y = f (xs ! i) \<Longrightarrow> map f (xs[i := y]) = map f xs"
  by (induction xs arbitrary: i) (auto split: nat.splits)

lemma Names_setIgnored [simp]: "map Name (Scripts (setIgnored i c)) = map Name (Scripts c)"
  by (simp add: setIgnored_def map_update_same)

lemma Names_writeSlot [simp]: "map Name (Scripts (writeSlot k i slot c)) = map Name (Scripts c)"
  by (simp add: writeSlot_def map_update_same)

lemma Ignored_writeSlot [simp]:
  "map Ignored (Scripts (writeSlot k i slot c)) = map Ignored (Scripts c)"
  by (simp add: writeSlot_def map_update_same)

lemma hosts_setIgnored [simp]:
  "map (\<lambda>v. length (Credentials v)) (Scripts (setIgnored i c)) =
   map (\<lambda>v. length (Credentials v)) (Scripts c)"
  by (simp add: setIgnored_def map_update_same)

lemma hosts_writeSlot [simp]:
  "map (\<lambda>v. length (Credentials v)) (Scripts (writeSlot k i slot c)) =
   map (\<lambda>v. length (Credentials v)) (Scripts c)"
  by (simp add: writeSlot_def map_update_same)

text \<open>What each kind of step leaves alone.\<close>

lemma mainStep_frame:
  assumes "mainStep p s = Some s'"
  shows "tasks s' = tasks s" "contacted s' = contacted s" "signals s' = signals s"
    "done_counter s' = done_counter s" "crashed s' = crashed s"
    "map Name (Scripts (cfg s')) = map Name (Scripts (cfg s))"
    "map (\<lambda>v. length (Credentials v)) (Scripts (cfg s')) =
       map (\<lambda>v. length (Credentials v)) (Scripts (cfg s))"
  using assms
  by (auto simp: mainStep_def Let_def split: mpc.splits if_splits)

lemma selectTimeout_frame:
  assumes "selectTimeout s = Some s'"
  shows "tasks s' = tasks s" "contacted s' = contacted s" "cfg s' = cfg s"
    "done_counter s' = done_counter s" "crashed s' = crashed s" "spawners s' = spawners s"
  using assms
  by (auto simp: selectTimeout_def split: mpc.splits if_splits)

lemma selectReceive_frame:
  assumes "selectReceive a b s = Some s'"
  shows "contacted s' = contacted s" "cfg s' = cfg s"
    "done_counter s' = done_counter s" "crashed s' = crashed s" "spawners s' = spawners s"
  using assms
  by (auto simp: selectReceive_def split: mpc.splits if_splits)

lemma spawnerStep_frame:
  assumes "spawnerStep e k s = Some s'"
  shows "contacted s' = contacted s" "cfg s' = cfg s" "main s' = main s"
    "crashed s' = crashed s" "signals s' = signals s"
  using assms
  by (auto simp: spawnerStep_def split: option.splits spc.splits if_splits)

lemma taskStep_frame:
  assumes "taskStep e k j s = Some s'"
  shows "main s' = main s" "spawners s' = spawners s" "signals s' = signals s"
    "map Name (Scripts (cfg s')) = map Name (Scripts (cfg s))"
    "map Ignored (Scripts (cfg s')) = map Ignored (Scripts (cfg s))"
    "map (\<lambda>v. length (Credentials v)) (Scripts (cfg s')) =
       map (\<lambda>v. length (Credentials v)) (Scripts (cfg s))"
  using assms
  by (auto simp: taskStep_def Let_def split: option.splits tpc.splits sum.splits)

lemma exec_Names:
  assumes "exec e p a s = Some s'"
  shows "map Name (Scripts (cfg s')) = map Name (Scripts (cfg s))"
  using assms
  by (cases a)
    (auto simp: exec_def mainStep_frame selectTimeout_frame selectReceive_frame
      spawnerStep_frame taskStep_frame split: if_splits)

lemma exec_hosts:
  assumes "exec e p a s = Some s'"
  shows "map (\<lambda>v. length (Credentials v)) (Scripts (cfg s')) =
         map (\<lambda>v. length (Credentials v)) (Scripts (cfg s))"
  using assms
  by (cases a)
    (auto simp: exec_def mainStep_frame selectTimeout_frame selectReceive_frame
      spawnerStep_frame taskStep_frame split: if_splits)

lemma reach_Names:
  "reach e p c s \<Longrightarrow> map Name (Scripts (cfg s)) = map Name (Scripts c)"
  by (induction rule: reach.induct) (simp_all add: initial_def exec_Names)

lemma reach_hosts:
  "reach e p c s \<Longrightarrow>
     map (\<lambda>v. length (Credentials v)) (Scripts (cfg s)) =
     map (\<lambda>v. length (Credentials v)) (Scripts c)"
  by (induction rule: reach.induct) (simp_all add: initial_def exec_hosts)

lemma reach_length: "reach e p c s \<Longrightarrow> length (Scripts (cfg s)) = length (Scripts c)"
  by (drule reach_Names) (rule map_eq_imp_length_eq)

lemma reach_Name:
  "reach e p c s \<Longrightarrow> k < length (Scripts c) \<Longrightarrow> Name (Scripts (cfg s) ! k) = Name (Scripts c ! k)"
  by (frule reach_Names, frule reach_length) (metis nth_map)

lemma Ignored_nth_writeSlot:
  "k < length (Scripts c) \<Longrightarrow>
     Ignored (Scripts (writeSlot a i slot c) ! k) = Ignored (Scripts c ! k)"
  by (cases "k = a") (simp_all add: writeSlot_def)

lemma Ignored_nth_setIgnored:
  "k < length (Scripts c) \<Longrightarrow>
     Ignored (Scripts (setIgnored i c) ! k) = (k = i \<or> Ignored (Scripts c ! k))"
  by (cases "k = i") (simp_all add: setIgnored_def)

lemma skipped_mainStep:
  assumes "mainStep p s = Some s'" and "skipped k s"
    and "k < length (Scripts (cfg s))" and "\<not> p (Name (Scripts (cfg s) ! k))"
  shows "skipped k s'"
  using assms
  by (auto simp: mainStep_def skipped_def Let_def Ignored_nth_setIgnored less_Suc_eq
      split: mpc.splits if_splits)

lemma skipped_selectTimeout:
  assumes "selectTimeout s = Some s'" and "skipped k s"
  shows "skipped k s'"
  using assms
  by (auto simp: selectTimeout_def skipped_def split: mpc.splits if_splits)

lemma skipped_selectReceive:
  assumes "selectReceive a b s = Some s'" and "skipped k s"
  shows "skipped k s'"
  using assms
  by (auto simp: selectReceive_def skipped_def split: mpc.splits if_splits)

lemma skipped_spawnerStep:
  assumes "spawnerStep e a s = Some s'" and "skipped k s"
  shows "skipped k s'"
  using assms
  by (auto simp: spawnerStep_def skipped_def split: option.splits spc.splits if_splits mpc.splits)

lemma skipped_taskStep:
  assumes "taskStep e a b s = Some s'" and "skipped k s" and "k < length (Scripts (cfg s))"
  shows "skipped k s'"
  using assms
  by (auto simp: taskStep_def skipped_def Let_def Ignored_nth_writeSlot
      split: option.splits tpc.splits sum.splits mpc.splits)

lemma skipped_exec:
  assumes "exec e p a s = Some s'" and "skipped k s"
    and "k < length (Scripts (cfg s))" and "\<not> p (Name (Scripts (cfg s) ! k))"
  shows "skipped k s'"
  using assms
  by (cases a)
    (auto simp: exec_def split: if_splits
      intro: skipped_mainStep skipped_selectTimeout skipped_selectReceive
        skipped_spawnerStep skipped_taskStep)

lemma reach_skipped:
  assumes "reach e p c s" and "k < length (Scripts c)" and "\<not> p (Name (Scripts c ! k))"
  shows "skipped k s"
  using assms
proof (induction rule: reach.induct)
  case start
  then show ?case by (simp add: skipped_def initial_def)
next
  case (step s a s')
  then show ?case
    using skipped_exec [of e p a s s' k] reach_length [of e p c s] reach_Name [of e p c s k]
    by simp
qed

lemma received_append [simp]: "received (xs @ ys) = received xs @ received ys"
  by (simp add: received_def)

lemma received_single [simp]: "received [None] = []" "received [Some t] = [t]"
  by (simp_all add: received_def)

lemma received_Nil [simp]: "received [] = []"
  by (simp add: received_def)

subsection \<open>Scripts the first loop has not reached have no \<open>executeScript\<close>\<close>


subsection \<open>Host goroutines exist for the iterations passed\<close>










subsection \<open>Received signals come from distinct goroutines past their send\<close>










lemma hostsOf_writeSlot [simp]:
  "map hostsOf (Scripts (writeSlot k i slot c)) = map hostsOf (Scripts c)"
  by (simp add: writeSlot_def map_update_same hostsOf_def)












lemmas dispatcher_defs =
  exec_def mainStep_def selectTimeout_def selectReceive_def spawnerStep_def taskStep_def
  atSelect_def initial_def newSpawner_def setIgnored_def slotOf_def writeSlot_def
  exampleScript_def exampleCred_def exactly_def Let_def


lemma crash_run:
  "case run exampleEnv (exactly ''echo_output'') crashSchedule (initial badPatternConfig) of
     None \<Rightarrow> False
   | Some s \<Rightarrow> crashed s \<and> main s = MLoop1 1 \<and>
       contacted s = [(0, ''up.example.com'', ''22'', ''someuser'', ''/path/to/private/key'', ''echo hi'')]"
  by (simp add: crashSchedule_def badPatternConfig_def dispatcher_defs executor_defs)

lemma probe_run:
  "case run exampleEnv (exactly ''echo_output'') probeSchedule (initial probeConfig) of
     None \<Rightarrow> False
   | Some s \<Rightarrow>
       main s = MReturned None \<and> tasks s (0, 0) = Some TExit \<and> done_counter s = 0 \<and>
       contacted s = [(0, ''up.example.com'', ''22'', ''someuser'', ''/path/to/private/key'', ''echo hi'')] \<and>
       crashed s = False \<and> signals s = [Some (0, 0)] \<and> spawners s 1 = None \<and>
       Ignored (Scripts (cfg s) ! 1) \<and> cfg s = probeResult"
  by (simp add: probeSchedule_def probeConfig_def probeResult_def dispatcher_defs executor_defs
      newline_def backslash_def sublist_code)

lemma run_reach:
  "reach e p c s \<Longrightarrow> run e p as s = Some s' \<Longrightarrow> reach e p c s'"
proof (induction as arbitrary: s)
  case Nil
  then show ?case by simp
next
  case (Cons a as)
  then obtain s1 where s1: "exec e p a s = Some s1" "run e p as s1 = Some s'"
    by (auto split: option.splits)
  from Cons.prems(1) s1(1) have "reach e p c s1" by (rule reach.step)
  then show ?case using s1(2) by (rule Cons.IH)
qed

lemma crashed_stuck: "crashed s \<Longrightarrow> exec e p a s = None"
  by (simp add: exec_def)

subsection \<open>The returned error\<close>

lemma exec_returned:
  assumes "exec e p a s = Some s'" and "main s' = MReturned err"
  shows "err = None \<or> main s = MReturned err"
proof (cases a)
  case MainStep
  then have "mainStep p s = Some s'"
    using assms(1) by (simp add: exec_def split: if_splits)
  then show ?thesis
    using assms(2) by (auto simp: mainStep_def Let_def split: mpc.splits if_splits)
next
  case SelectTimeout
  then have "selectTimeout s = Some s'"
    using assms(1) by (simp add: exec_def split: if_splits)
  then show ?thesis
    using assms(2) by (auto simp: selectTimeout_def split: mpc.splits if_splits)
next
  case (SelectReceive k j)
  then have "selectReceive k j s = Some s'"
    using assms(1) by (simp add: exec_def split: if_splits)
  then show ?thesis
    using assms(2) by (auto simp: selectReceive_def split: mpc.splits if_splits)
next
  case (SpawnerStep k)
  then have "spawnerStep e k s = Some s'"
    using assms(1) by (simp add: exec_def split: if_splits)
  then have "main s' = main s" by (rule spawnerStep_frame)
  with assms(2) show ?thesis by simp
next
  case (TaskStep k j)
  then have "taskStep e k j s = Some s'"
    using assms(1) by (simp add: exec_def split: if_splits)
  then have "main s' = main s" by (rule taskStep_frame)
  with assms(2) show ?thesis by simp
qed

lemma reach_returned_nil:
  assumes "reach e p c s" and "main s = MReturned err"
  shows "err = None"
  using assms
proof (induction rule: reach.induct)
  case start
  then show ?case by (simp add: initial_def)
next
  case (step s a s')
  from exec_returned [OF step.hyps(2) step.prems] step.IH show ?case by blast
qed

subsection \<open>A schedule on which the dispatcher returns\<close>

lemma mainStep_length:
  assumes "mainStep p s = Some s'"
  shows "length (Scripts (cfg s')) = length (Scripts (cfg s))"
proof -
  have "map Name (Scripts (cfg s')) = map Name (Scripts (cfg s))"
    using assms by (rule mainStep_frame)
  then show ?thesis by (rule map_eq_imp_length_eq)
qed

lemma first_loop_ends:
  assumes "reach e p c s" and "main s = MLoop1 i" and "\<not> crashed s" and "done_counter s = 0"
  shows "\<exists>s'. reach e p c s' \<and> main s' = MWait \<and> \<not> crashed s' \<and> done_counter s' = 0"
  using assms
proof (induction "length (Scripts (cfg s)) - i" arbitrary: s i)
  case 0
  then have "mainStep p s = Some (s\<lparr>main := MWait\<rparr>)"
    by (simp add: mainStep_def)
  then have "exec e p MainStep s = Some (s\<lparr>main := MWait\<rparr>)"
    using "0.prems"(3) by (simp add: exec_def)
  with "0.prems"(1) have "reach e p c (s\<lparr>main := MWait\<rparr>)" by (rule reach.step)
  with "0.prems" show ?case by (intro exI [of _ "s\<lparr>main := MWait\<rparr>"]) simp
next
  case (Suc d)
  then have less: "i < length (Scripts (cfg s))" by simp
  with Suc.prems(2) obtain s1 where s1: "mainStep p s = Some s1" "main s1 = MLoop1 (Suc i)"
    by (cases "p (Name (Scripts (cfg s) ! i))") (auto simp: mainStep_def Let_def)
  have frame: "crashed s1 = crashed s" "done_counter s1 = done_counter s"
    using s1(1) by (rule mainStep_frame)+
  have len: "length (Scripts (cfg s1)) = length (Scripts (cfg s))"
    using s1(1) by (rule mainStep_length)
  have "exec e p MainStep s = Some s1"
    using s1(1) Suc.prems(3) by (simp add: exec_def)
  with Suc.prems(1) have "reach e p c s1" by (rule reach.step)
  moreover have "d = length (Scripts (cfg s1)) - Suc i"
    using Suc.hyps(2) len by simp
  ultimately show ?case
    using Suc.hyps(1) [of s1 "Suc i"] s1(2) frame Suc.prems(3,4) by simp
qed

lemma selects_end:
  assumes "reach e p c s" and "main s = MLoop2 k j" and "\<not> crashed s"
    and "k < length (Scripts (cfg s))"
  shows "\<exists>s'. reach e p c s' \<and> main s' = MLoop2 (Suc k) 0 \<and> \<not> crashed s' \<and>
           cfg s' = cfg s"
  using assms
proof (induction "length (Credentials (Scripts (cfg s) ! k)) - j" arbitrary: s j)
  case 0
  then have "\<not> atSelect s" by (simp add: atSelect_def)
  with "0.prems" have "mainStep p s = Some (s\<lparr>main := MLoop2 (Suc k) 0\<rparr>)"
    by (simp add: mainStep_def)
  then have "exec e p MainStep s = Some (s\<lparr>main := MLoop2 (Suc k) 0\<rparr>)"
    using "0.prems"(3) by (simp add: exec_def)
  with "0.prems"(1) have "reach e p c (s\<lparr>main := MLoop2 (Suc k) 0\<rparr>)" by (rule reach.step)
  with "0.prems" show ?case by (intro exI [of _ "s\<lparr>main := MLoop2 (Suc k) 0\<rparr>"]) simp
next
  case (Suc d)
  show ?case
  proof (cases "atSelect s")
    case True
    let ?s1 = "s\<lparr>main := MLoop2 k (Suc j), signals := signals s @ [None]\<rparr>"
    from True Suc.prems(2) have "selectTimeout s = Some ?s1"
      by (simp add: selectTimeout_def)
    then have "exec e p SelectTimeout s = Some ?s1"
      using Suc.prems(3) by (simp add: exec_def)
    with Suc.prems(1) have "reach e p c ?s1" by (rule reach.step)
    moreover have "d = length (Credentials (Scripts (cfg ?s1) ! k)) - Suc j"
      using Suc.hyps(2) by simp
    ultimately have "\<exists>s'. reach e p c s' \<and> main s' = MLoop2 (Suc k) 0 \<and> \<not> crashed s' \<and>
           cfg s' = cfg ?s1"
      using Suc.hyps(1) [of ?s1 "Suc j"] Suc.prems(3,4) by simp
    then show ?thesis by simp
  next
    case False
    with Suc.prems have "mainStep p s = Some (s\<lparr>main := MLoop2 (Suc k) 0\<rparr>)"
      by (simp add: mainStep_def)
    then have "exec e p MainStep s = Some (s\<lparr>main := MLoop2 (Suc k) 0\<rparr>)"
      using Suc.prems(3) by (simp add: exec_def)
    with Suc.prems(1) have "reach e p c (s\<lparr>main := MLoop2 (Suc k) 0\<rparr>)" by (rule reach.step)
    with Suc.prems show ?thesis by (intro exI [of _ "s\<lparr>main := MLoop2 (Suc k) 0\<rparr>"]) simp
  qed
qed

lemma second_loop_ends:
  assumes "reach e p c s" and "main s = MLoop2 k j" and "\<not> crashed s"
  shows "\<exists>s'. reach e p c s' \<and> main s' = MReturned None"
  using assms
proof (induction "length (Scripts (cfg s)) - k" arbitrary: s k j)
  case 0
  then have "mainStep p s = Some (s\<lparr>main := MReturned None\<rparr>)"
    by (simp add: mainStep_def)
  then have "exec e p MainStep s = Some (s\<lparr>main := MReturned None\<rparr>)"
    using "0.prems"(3) by (simp add: exec_def)
  with "0.prems"(1) have "reach e p c (s\<lparr>main := MReturned None\<rparr>)" by (rule reach.step)
  then show ?case by (intro exI [of _ "s\<lparr>main := MReturned None\<rparr>"]) simp
next
  case (Suc d)
  then have "k < length (Scripts (cfg s))" by simp
  from selects_end [OF Suc.prems this] obtain s1 where s1: "reach e p c s1"
    "main s1 = MLoop2 (Suc k) 0" "\<not> crashed s1" "cfg s1 = cfg s"
    by blast
  have "d = length (Scripts (cfg s1)) - Suc k"
    using Suc.hyps(2) s1(4) by simp
  from Suc.hyps(1) [OF this s1(1,2,3)] show ?case .
qed

lemma can_return: "\<exists>s. reach e p c s \<and> main s = MReturned None"
proof -
  have "reach e p c (initial c)" by (rule reach.start)
  moreover have "main (initial c) = MLoop1 0" "\<not> crashed (initial c)"
    "done_counter (initial c) = 0"
    by (simp_all add: initial_def)
  ultimately obtain s1 where s1: "reach e p c s1" "main s1 = MWait" "\<not> crashed s1"
    "done_counter s1 = 0"
    using first_loop_ends by blast
  then have "exec e p MainStep s1 = Some (s1\<lparr>main := MLoop2 0 0\<rparr>)"
    by (simp add: exec_def mainStep_def)
  with s1(1) have "reach e p c (s1\<lparr>main := MLoop2 0 0\<rparr>)" by (rule reach.step)
  moreover have "main (s1\<lparr>main := MLoop2 0 0\<rparr>) = MLoop2 0 0"
    "\<not> crashed (s1\<lparr>main := MLoop2 0 0\<rparr>)"
    using s1(3) by simp_all
  ultimately show ?thesis by (rule second_loop_ends)
qed

subsection \<open>Ignored scripts in the rendered document\<close>

lemma format_dropScript:
  assumes "k < length (Scripts c)" and "Ignored (Scripts c ! k)"
  shows "PrometheusFormatResponse (dropScript k c) = PrometheusFormatResponse c"
proof -
  let ?f = "\<lambda>i. if Ignored i then [] else scriptBlock i"
  let ?xs = "Scripts c"
  have split: "take k ?xs @ ?xs ! k # drop (Suc k) ?xs = ?xs"
    using assms(1) by (rule id_take_nth_drop [symmetric])
  have "concat (map ?f (take k ?xs @ ?xs ! k # drop (Suc k) ?xs)) =
      concat (map ?f (take k ?xs @ drop (Suc k) ?xs))"
    using assms(2) by simp
  then have eq: "concat (map ?f ?xs) = concat (map ?f (take k ?xs @ drop (Suc k) ?xs))"
    by (simp only: split)
  have dropped: "Scripts (dropScript k c) = take k ?xs @ drop (Suc k) ?xs"
    by (simp add: dropScript_def)
  show ?thesis
    by (simp only: PrometheusFormatResponse_def formatScripts_eq dropped eq append_Nil)
qed



text \<open>
  Claim C1. For every configuration, environment and compiled name filter, and in every
  state the dispatcher reaches under any schedule: for a script whose name the filter does
  not match, no \<open>executeScript\<close> has been started and no host goroutine exists, no call
  of \<open>executeScriptOnHost\<close> has been made for it (no host of it was contacted), and, once
  the first loop has passed the script (in particular once the dispatcher has returned),
  it is marked ignored and the rendered document is that of the configuration without
  the script: it contributes no lines.
\<close>

theorem unselected_script_not_executed:
  assumes "reach e p c s" and "k < length (Scripts c)" and "\<not> p (Name (Scripts c ! k))"
  shows "spawners s k = None \<and> (\<forall>j. tasks s (k, j) = None) \<and>
         (\<forall>ev \<in> set (contacted s). fst ev \<noteq> k) \<and>
         ((\<forall>i. main s = MLoop1 i \<longrightarrow> k < i) \<longrightarrow>
            Ignored (Scripts (cfg s) ! k) \<and>
            PrometheusFormatResponse (cfg s) = PrometheusFormatResponse (dropScript k (cfg s)))"
proof -
  from assms have sk: "skipped k s" by (rule reach_skipped)
  have len: "k < length (Scripts (cfg s))"
    using assms(1,2) by (simp add: reach_length)
  have "Ignored (Scripts (cfg s) ! k)" if "\<forall>i. main s = MLoop1 i \<longrightarrow> k < i"
    using sk that by (cases "main s") (simp_all add: skipped_def)
  moreover have "PrometheusFormatResponse (cfg s) = PrometheusFormatResponse (dropScript k (cfg s))"
    if "Ignored (Scripts (cfg s) ! k)"
    using format_dropScript [OF len that] by simp
  ultimately show ?thesis
    using sk unfolding skipped_def by blast
qed

lemma probe_reach:
  "reach exampleEnv (exactly ''echo_output'') probeConfig
     (the (run exampleEnv (exactly ''echo_output'') probeSchedule (initial probeConfig)))"
proof -
  from probe_run obtain s where
    "run exampleEnv (exactly ''echo_output'') probeSchedule (initial probeConfig) = Some s"
    by (auto split: option.splits)
  moreover from this have "reach exampleEnv (exactly ''echo_output'') probeConfig s"
    by (rule run_reach [OF reach.start])
  ultimately show ?thesis by simp
qed

lemma probe_final:
  "main (the (run exampleEnv (exactly ''echo_output'') probeSchedule (initial probeConfig))) =
     MReturned None \<and>
   contacted (the (run exampleEnv (exactly ''echo_output'') probeSchedule (initial probeConfig))) =
     [(0, ''up.example.com'', ''22'', ''someuser'', ''/path/to/private/key'', ''echo hi'')] \<and>
   signals (the (run exampleEnv (exactly ''echo_output'') probeSchedule (initial probeConfig))) =
     [Some (0, 0)] \<and>
   tasks (the (run exampleEnv (exactly ''echo_output'') probeSchedule (initial probeConfig))) (0, 0) =
     Some TExit \<and>
   cfg (the (run exampleEnv (exactly ''echo_output'') probeSchedule (initial probeConfig))) =
     probeResult"
  using probe_run by (auto split: option.splits)

lemma probe_document:
  \<open>fst (PrometheusFormatResponse probeResult) =
     ''# HELP ssh_exporter_echo_output_exit_status Integer exit status of commands and metadata about the command's execution.'' @ [newline] @
     ''# TYPE ssh_exporter gauge'' @ [newline] @
     ''ssh_exporter_echo_output_exit_status{name="echo_output",host="up.example.com",user="someuser",script="echo hi",exit_status="0"} 0'' @ [newline] @
     ''# HELP ssh_exporter_echo_output_pattern_match Boolean match of regex on output of script of commands and metadata about the command's execution.'' @ [newline] @
     ''# TYPE ssh_exporter gauge'' @ [newline] @
     ''ssh_exporter_echo_output_pattern_match{name="echo_output",host="up.example.com",user="someuser",script="echo hi",regex="foo"} 1'' @ [newline]\<close>
  by (simp add: PrometheusFormatResponse_def formatScripts_blocks probeResult_def layout_defs
      del: formatScripts.simps)

theorem unselected_script_not_executed_witness:
  \<open>reach exampleEnv (exactly ''echo_output'') probeConfig
     (the (run exampleEnv (exactly ''echo_output'') probeSchedule (initial probeConfig))) \<and>
   \<not> exactly ''echo_output'' (Name (Scripts probeConfig ! 1)) \<and>
   main (the (run exampleEnv (exactly ''echo_output'') probeSchedule (initial probeConfig))) =
     MReturned None \<and>
   spawners (the (run exampleEnv (exactly ''echo_output'') probeSchedule (initial probeConfig))) 1 =
     None \<and>
   contacted (the (run exampleEnv (exactly ''echo_output'') probeSchedule (initial probeConfig))) =
     [(0, ''up.example.com'', ''22'', ''someuser'', ''/path/to/private/key'', ''echo hi'')] \<and>
   Ignored (Scripts (cfg (the (run exampleEnv (exactly ''echo_output'') probeSchedule
     (initial probeConfig)))) ! 1) \<and>
   PrometheusFormatResponse (cfg (the (run exampleEnv (exactly ''echo_output'') probeSchedule
     (initial probeConfig)))) =
   PrometheusFormatResponse (dropScript 1 (cfg (the (run exampleEnv (exactly ''echo_output'')
     probeSchedule (initial probeConfig))))) \<and>
   cfg (the (run exampleEnv (exactly ''echo_output'') probeSchedule (initial probeConfig))) =
     probeResult \<and>
   fst (PrometheusFormatResponse probeResult) =
     ''# HELP ssh_exporter_echo_output_exit_status Integer exit status of commands and metadata about the command's execution.'' @ [newline] @
     ''# TYPE ssh_exporter gauge'' @ [newline] @
     ''ssh_exporter_echo_output_exit_status{name="echo_output",host="up.example.com",user="someuser",script="echo hi",exit_status="0"} 0'' @ [newline] @
     ''# HELP ssh_exporter_echo_output_pattern_match Boolean match of regex on output of script of commands and metadata about the command's execution.'' @ [newline] @
     ''# TYPE ssh_exporter gauge'' @ [newline] @
     ''ssh_exporter_echo_output_pattern_match{name="echo_output",host="up.example.com",user="someuser",script="echo hi",regex="foo"} 1'' @ [newline]\<close>
proof -
  let ?s = "the (run exampleEnv (exactly ''echo_output'') probeSchedule (initial probeConfig))"
  have names: "1 < length (Scripts probeConfig)"
    "\<not> exactly ''echo_output'' (Name (Scripts probeConfig ! 1))"
    by (simp_all add: probeConfig_def exampleScript_def exactly_def)
  have returned: "main ?s = MReturned None" using probe_final by blast
  then have passed: "\<forall>i. main ?s = MLoop1 i \<longrightarrow> 1 < i" by simp
  from unselected_script_not_executed [OF probe_reach names] passed
  have "spawners ?s 1 = None \<and> Ignored (Scripts (cfg ?s) ! 1) \<and>
      PrometheusFormatResponse (cfg ?s) = PrometheusFormatResponse (dropScript 1 (cfg ?s))"
    by blast
  with probe_reach names(2) returned probe_final probe_document show ?thesis by blast
qed

text \<open>
  Claim C10. For every configuration, environment and compiled name filter, the
  dispatcher can return, and whenever it has returned, under any schedule, the error it
  returned is nil; and for every configuration the error the formatter returns is nil.
\<close>

theorem dispatcher_and_formatter_errors_nil:
  "(\<exists>s. reach e p c s \<and> main s = MReturned None) \<and>
   (\<forall>s err. reach e p c s \<and> main s = MReturned err \<longrightarrow> err = None) \<and>
   snd (PrometheusFormatResponse c') = None"
  using can_return [of e p c] reach_returned_nil [of e p c]
  by (simp add: PrometheusFormatResponse_def) blast

theorem dispatcher_and_formatter_errors_nil_witness:
  "reach exampleEnv (exactly ''echo_output'') probeConfig
     (the (run exampleEnv (exactly ''echo_output'') probeSchedule (initial probeConfig))) \<and>
   main (the (run exampleEnv (exactly ''echo_output'') probeSchedule (initial probeConfig))) =
     MReturned None \<and>
   snd (PrometheusFormatResponse unitConfig) = None"
  using dispatcher_and_formatter_errors_nil [of exampleEnv "exactly ''echo_output''" probeConfig
      unitConfig] probe_reach probe_final
  by blast

text \<open>
  Claim C3 fails on the code. With a script whose pattern \<open>(\<close> does not compile and one
  host that answers, the host goroutine stores its results and then calls \<open>MatchString\<close>
  on the nil pointer that \<open>regexp.Compile\<close> returned: the process has crashed while the
  dispatcher is still in its first loop, and no goroutine takes another step.
\<close>

theorem invalid_pattern_crashes_process:
  "case run exampleEnv (exactly ''echo_output'') crashSchedule (initial badPatternConfig) of
     None \<Rightarrow> False
   | Some s \<Rightarrow>
       crashed s \<and> main s = MLoop1 1 \<and>
       contacted s =
         [(0, ''up.example.com'', ''22'', ''someuser'', ''/path/to/private/key'', ''echo hi'')] \<and>
       exec exampleEnv (exactly ''echo_output'') MainStep s = None"
proof -
  from crash_run obtain s where s:
    "run exampleEnv (exactly ''echo_output'') crashSchedule (initial badPatternConfig) = Some s"
    "crashed s" "main s = MLoop1 1"
    "contacted s =
       [(0, ''up.example.com'', ''22'', ''someuser'', ''/path/to/private/key'', ''echo hi'')]"
    by (auto split: option.splits)
  from s(2) have "exec exampleEnv (exactly ''echo_output'') MainStep s = None"
    by (rule crashed_stuck)
  with s show ?thesis by simp
qed




end
